theory Spec2Isabelle
  imports Main
begin

section \<open>Data model (app/models/order.py, app/models/user.py)\<close>

datatype OrderStatus = PENDING | CONFIRMED | PROCESSING | SHIPPED | DELIVERED | CANCELLED

datatype PaymentStatus = PAY_PENDING | PAID | FAILED | REFUNDED

datatype PaymentMethod = CARD | COD | BANK_TRANSFER

text \<open>
  A \<open>datetime\<close> is a count of seconds, the precision of the expiry of a token, and a
  \<open>timedelta\<close> a number of seconds; \<open>datetime.utcnow()\<close> is an input of every operation
  that reads the clock.
\<close>

type_synonym datetime = int

text \<open>
  A BSON object id is its sequence of bytes. A string is the list of its code points, which
  are taken from the 8-bit range.
\<close>

type_synonym objectid = "nat list"

record OrderItem =
  product_id :: string
  item_name :: string
  price :: int
  quantity :: int
  item_size :: string
  image :: string

record ShippingAddress =
  first_name :: string
  last_name :: string
  address :: string
  apartment :: "string option"
  city :: string
  postal_code :: "string option"
  country :: string
  phone :: string

text \<open>\<open>OrderCreate\<close>: the validated body of \<open>POST /orders\<close>.\<close>

record OrderCreate =
  c_items :: "OrderItem list"
  c_shipping_address :: ShippingAddress
  c_email :: string
  c_payment_method :: PaymentMethod
  c_shipping_method :: string
  c_notes :: "string option"

text \<open>\<open>OrderUpdate\<close>: the validated body of \<open>PUT /orders/{order_id}\<close>.\<close>

record OrderUpdate =
  u_status :: "OrderStatus option"
  u_payment_status :: "PaymentStatus option"
  u_tracking_number :: "string option"
  u_notes :: "string option"

text \<open>\<open>OrderInDB\<close>: a document of the \<open>orders\<close> collection; \<open>oid\<close> is its \<open>_id\<close>.\<close>

record order =
  oid :: objectid
  order_number :: string
  user_id :: "string option"
  items :: "OrderItem list"
  shipping_address :: ShippingAddress
  email :: string
  subtotal :: int
  shipping_cost :: int
  total :: int
  payment_method :: PaymentMethod
  payment_status :: PaymentStatus
  shipping_method :: string
  status :: OrderStatus
  tracking_number :: "string option"
  order_notes :: "string option"
  created_at :: datetime
  updated_at :: datetime

text \<open>\<open>OrderResponse\<close>: the dictionary built by \<open>serialize_order\<close>.\<close>

record OrderResponse =
  r_id :: string
  r_order_number :: string
  r_items :: "OrderItem list"
  r_shipping_address :: ShippingAddress
  r_email :: string
  r_subtotal :: int
  r_shipping_cost :: int
  r_total :: int
  r_payment_method :: PaymentMethod
  r_payment_status :: PaymentStatus
  r_shipping_method :: string
  r_status :: OrderStatus
  r_tracking_number :: "string option"
  r_created_at :: datetime

text \<open>
  The part of a \<open>users\<close> document the order endpoints read (\<open>UserInDB\<close>); \<open>uid\<close> is its
  \<open>_id\<close>. \<open>register\<close> and the admin seeding write both flags into every document.
\<close>

record user =
  uid :: objectid
  is_active :: bool
  is_admin :: bool

text \<open>
  What a handler raises: an \<open>HTTPException\<close> with its status code and detail; the
  driver's \<open>DuplicateKeyError\<close> on a unique index and its \<open>OverflowError\<close> on an integer
  that does not fit eight bytes; the \<open>TypeError\<close> of subscripting \<open>None\<close>; \<open>InvalidId\<close> of
  \<open>ObjectId\<close>; and \<open>JWTError\<close> of the token library.
\<close>

datatype error =
  HTTPException nat string | DuplicateKeyError | OverflowError | TypeError | InvalidId | JWTError

section \<open>Library functions the handlers call\<close>

subsection \<open>\<open>str.lower\<close>\<close>

text \<open>
  Lower-casing of a character: the upper-case letters, \<open>A\<close> to \<open>Z\<close> and the accented
  capitals 192 to 222 other than the multiplication sign 215, move up by 32; every other
  character is left as it is.
\<close>

definition lower_char :: "char \<Rightarrow> char" where
  "lower_char c =
     (let n = (of_char c :: nat)
      in if (65 \<le> n \<and> n \<le> 90) \<or> (192 \<le> n \<and> n \<le> 222 \<and> n \<noteq> 215)
         then char_of (n + 32) else c)"

definition lower :: "string \<Rightarrow> string" where
  "lower s = map lower_char s"

subsection \<open>\<open>bson.ObjectId\<close>\<close>

definition hexdigits :: string where
  "hexdigits = ''0123456789abcdef''"

definition hex_val :: "char \<Rightarrow> nat option" where
  "hex_val c = map_of (zip (hexdigits @ ''ABCDEF'') ([0..<16] @ [10..<16])) c"

definition is_space :: "char \<Rightarrow> bool" where
  "is_space c = (c \<in> set [CHR '' '', CHR 0x09, CHR 0x0A, CHR 0x0B, CHR 0x0C, CHR 0x0D])"

text \<open>
  \<open>bytes.fromhex\<close>: ASCII white space is skipped between bytes, each byte is two
  hexadecimal digits; \<open>None\<close> stands for the \<open>ValueError\<close>.
\<close>

fun fromhex :: "string \<Rightarrow> nat list option" where
  "fromhex [] = Some []"
| "fromhex [c] = (if is_space c then Some [] else None)"
| "fromhex (c # d # cs) =
     (if is_space c then fromhex (d # cs)
      else case (hex_val c, hex_val d) of
             (Some h, Some l) \<Rightarrow> map_option ((#) (16 * h + l)) (fromhex cs)
           | _ \<Rightarrow> None)"

text \<open>
  \<open>ObjectId(s)\<close> on a string: the string has 24 characters and \<open>bytes.fromhex\<close> accepts
  it, or \<open>InvalidId\<close> is raised (\<open>None\<close> here).
\<close>

definition ObjectId :: "string \<Rightarrow> objectid option" where
  "ObjectId s = (if length s = 24 then fromhex s else None)"

text \<open>
  \<open>str(oid)\<close>: two lower-case hexadecimal digits for each byte. A byte is a number below
  256, so that the first index is its high half.
\<close>

definition str_oid :: "objectid \<Rightarrow> string" where
  "str_oid bs =
     concat (map (\<lambda>b. [hexdigits ! (b div 16 mod 16), hexdigits ! (b mod 16)]) bs)"

subsection \<open>The \<open>orders\<close> collection\<close>

text \<open>
  The collection is the list of its documents in insertion order. \<open>find_one\<close> returns the
  first document that matches the filter.
\<close>

definition find_one :: "('a \<Rightarrow> bool) \<Rightarrow> 'a list \<Rightarrow> 'a option" where
  "find_one flt db = find flt db"

text \<open>\<open>update_one\<close> applies \<open>$set\<close> to the first document that matches the filter.\<close>

fun update_one :: "(order \<Rightarrow> bool) \<Rightarrow> (order \<Rightarrow> order) \<Rightarrow> order list \<Rightarrow> order list" where
  "update_one flt upd [] = []"
| "update_one flt upd (d # db) =
     (if flt d then upd d # db else d # update_one flt upd db)"

definition matched_count :: "(order \<Rightarrow> bool) \<Rightarrow> order list \<Rightarrow> nat" where
  "matched_count flt db = (if list_ex flt db then 1 else 0)"

text \<open>
  The driver encodes a document before it sends it, and an integer of the document that
  is not a signed 64-bit value makes the encoder raise \<open>OverflowError\<close>. The integers of an
  order are its three amounts and the price and quantity of each item.
\<close>

definition int64_ok :: "int \<Rightarrow> bool" where
  "int64_ok n = (- (2 ^ 63) \<le> n \<and> n < 2 ^ 63)"

definition encodable :: "order \<Rightarrow> bool" where
  "encodable doc =
     (int64_ok (subtotal doc) \<and> int64_ok (shipping_cost doc) \<and> int64_ok (total doc)
      \<and> list_all (\<lambda>item. int64_ok (price item) \<and> int64_ok (quantity item)) (items doc))"

text \<open>
  \<open>insert_one\<close>: the document is encoded, then sent; \<open>create_indexes\<close> declares
  \<open>order_number\<close> unique, and \<open>_id\<close> is unique in every collection, so that a document that
  repeats either is refused. Nothing is stored when \<open>insert_one\<close> raises. Failures of the
  connection and the limit on the size of a document are not part of the model.
\<close>

definition insert_one :: "order \<Rightarrow> order list \<Rightarrow> error + order list" where
  "insert_one doc db =
     (if \<not> encodable doc then Inl OverflowError
      else if list_ex (\<lambda>d. oid d = oid doc \<or> order_number d = order_number doc) db
      then Inl DuplicateKeyError
      else Inr (db @ [doc]))"

section \<open>The order endpoints (app/api/orders.py)\<close>

text \<open>
  Each handler is a function of the collection, of what it reads from its environment
  (the clock, the random generator, the id the driver assigns) and of its arguments as
  FastAPI passes them: the path and body parameters after validation, and the value of
  the \<open>Depends\<close> parameter. A handler that writes returns the collection with its result.
\<close>

definition generate_order_number :: "string \<Rightarrow> string \<Rightarrow> string" where
  \<comment> \<open>\<open>timestamp\<close> is \<open>strftime("%y%m%d")\<close> of the clock, \<open>random_part\<close> the six characters drawn\<close>
  "generate_order_number timestamp random_part = ''AJR-'' @ timestamp @ ''-'' @ random_part"

definition serialize_order :: "order \<Rightarrow> OrderResponse" where
  "serialize_order order =
     \<lparr> r_id = str_oid (oid order),
       r_order_number = order_number order,
       r_items = items order,
       r_shipping_address = shipping_address order,
       r_email = email order,
       r_subtotal = subtotal order,
       r_shipping_cost = shipping_cost order,
       r_total = total order,
       r_payment_method = payment_method order,
       r_payment_status = payment_status order,
       r_shipping_method = shipping_method order,
       r_status = status order,
       r_tracking_number = tracking_number order,
       r_created_at = created_at order \<rparr>"

text \<open>What \<open>create_order\<close> reads from its environment.\<close>

record create_env =
  now :: datetime
  timestamp :: string
  random_part :: string
  inserted_id :: objectid

text \<open>
  The document \<open>create_order\<close> has built when it reaches \<open>insert_one\<close> (the totals, the
  dictionary and the card override), with the \<open>_id\<close> the insertion gives it. The
  dictionary has no \<open>tracking_number\<close> key, which \<open>order.get\<close> reads as \<open>None\<close>.
\<close>

definition create_order_doc :: "create_env \<Rightarrow> OrderCreate \<Rightarrow> user option \<Rightarrow> order" where
  "create_order_doc env order_data current_user =
     (let subtotal = (\<Sum>item\<leftarrow>c_items order_data. price item * quantity item);
          shipping_cost =
            (if c_shipping_method order_data = ''express'' then 3000
             else if subtotal \<ge> 50000 then 0
             else 1500);
          total = subtotal + shipping_cost;
          order_doc =
            \<lparr> oid = inserted_id env,
              order_number = generate_order_number (timestamp env) (random_part env),
              user_id = (case current_user of Some u \<Rightarrow> Some (str_oid (uid u)) | None \<Rightarrow> None),
              items = c_items order_data,
              shipping_address = c_shipping_address order_data,
              email = c_email order_data,
              subtotal = subtotal,
              shipping_cost = shipping_cost,
              total = total,
              payment_method = c_payment_method order_data,
              payment_status =
                (if c_payment_method order_data \<noteq> COD then PAY_PENDING else PAY_PENDING),
              shipping_method = c_shipping_method order_data,
              status = PENDING,
              tracking_number = None,
              order_notes = c_notes order_data,
              created_at = now env,
              updated_at = now env \<rparr>
      in if c_payment_method order_data = CARD
         then order_doc\<lparr> payment_status := PAID, status := CONFIRMED \<rparr>
         else order_doc)"

definition create_order ::
  "order list \<Rightarrow> create_env \<Rightarrow> OrderCreate \<Rightarrow> user option \<Rightarrow> (error + OrderResponse) \<times> order list"
where
  "create_order db env order_data current_user =
     (let order_doc = create_order_doc env order_data current_user
      in case insert_one order_doc db of
           Inl e \<Rightarrow> (Inl e, db)
         | Inr db' \<Rightarrow> (Inr (serialize_order order_doc), db'))"

text \<open>Python's truth value of \<open>order.get("user_id")\<close>: neither \<open>None\<close> nor the empty string.\<close>

definition truthy :: "string option \<Rightarrow> bool" where
  "truthy v = (case v of None \<Rightarrow> False | Some s \<Rightarrow> s \<noteq> [])"

text \<open>The lookup of \<open>get_order\<close>: by \<open>_id\<close>, and by order number when \<open>ObjectId\<close> raises.\<close>

definition get_order_lookup :: "order list \<Rightarrow> string \<Rightarrow> order option" where
  "get_order_lookup db order_id =
     (case ObjectId order_id of
        Some i \<Rightarrow> find_one (\<lambda>d. oid d = i) db
      | None \<Rightarrow> find_one (\<lambda>d. order_number d = order_id) db)"

definition get_order :: "order list \<Rightarrow> string \<Rightarrow> user option \<Rightarrow> error + OrderResponse" where
  "get_order db order_id current_user =
     (case get_order_lookup db order_id of
        None \<Rightarrow> Inl (HTTPException 404 ''Order not found'')
      | Some order \<Rightarrow>
          (case current_user of
             Some u \<Rightarrow>
               (let user_id' = str_oid (uid u)
                in if truthy (user_id order) \<and> user_id order \<noteq> Some user_id' \<and> \<not> is_admin u
                   then Inl (HTTPException 403 ''Not authorized to view this order'')
                   else Inr (serialize_order order))
           | None \<Rightarrow> Inr (serialize_order order)))"

definition track_order :: "order list \<Rightarrow> string \<Rightarrow> string \<Rightarrow> error + OrderResponse" where
  "track_order db order_number' email' =
     (case find_one (\<lambda>d. order_number d = order_number' \<and> email d = lower email') db of
        None \<Rightarrow> Inl (HTTPException 404 ''Order not found'')
      | Some order \<Rightarrow> Inr (serialize_order order))"

text \<open>The \<open>$set\<close> of \<open>update_order\<close>: the fields of the body that are not \<open>None\<close>, and the clock.\<close>

definition update_data :: "OrderUpdate \<Rightarrow> datetime \<Rightarrow> order \<Rightarrow> order" where
  "update_data order_data t d =
     (let d1 = (case u_status order_data of Some v \<Rightarrow> d\<lparr> status := v \<rparr> | None \<Rightarrow> d);
          d2 = (case u_payment_status order_data of Some v \<Rightarrow> d1\<lparr> payment_status := v \<rparr> | None \<Rightarrow> d1);
          d3 = (case u_tracking_number order_data of Some v \<Rightarrow> d2\<lparr> tracking_number := Some v \<rparr> | None \<Rightarrow> d2);
          d4 = (case u_notes order_data of Some v \<Rightarrow> d3\<lparr> order_notes := Some v \<rparr> | None \<Rightarrow> d3)
      in d4\<lparr> updated_at := t \<rparr>)"

definition update_order ::
  "order list \<Rightarrow> datetime \<Rightarrow> string \<Rightarrow> OrderUpdate \<Rightarrow> user \<Rightarrow> (error + OrderResponse) \<times> order list"
where
  "update_order db t order_id order_data admin =
     (case ObjectId order_id of
        None \<Rightarrow> (Inl (HTTPException 400 ''Invalid order ID''), db)
      | Some i \<Rightarrow>
          (let db' = update_one (\<lambda>d. oid d = i) (update_data order_data t) db
           in if matched_count (\<lambda>d. oid d = i) db = 0
              then (Inl (HTTPException 404 ''Order not found''), db')
              else case find_one (\<lambda>d. oid d = i) db' of
                     Some order \<Rightarrow> (Inr (serialize_order order), db')
                   | None \<Rightarrow> (Inl TypeError, db')))"

definition cancel_order ::
  "order list \<Rightarrow> datetime \<Rightarrow> string \<Rightarrow> user \<Rightarrow> (error + OrderResponse) \<times> order list"
where
  "cancel_order db t order_id current_user =
     (case ObjectId order_id of
        None \<Rightarrow> (Inl (HTTPException 400 ''Invalid order ID''), db)
      | Some i \<Rightarrow>
          (case find_one (\<lambda>d. oid d = i) db of
             None \<Rightarrow> (Inl (HTTPException 404 ''Order not found''), db)
           | Some order \<Rightarrow>
               (let user_id' = str_oid (uid current_user)
                in if user_id order \<noteq> Some user_id' \<and> \<not> is_admin current_user
                   then (Inl (HTTPException 403 ''Not authorized''), db)
                   else if status order \<notin> set [PENDING, CONFIRMED]
                   then (Inl (HTTPException 400 ''Cannot cancel order in current status''), db)
                   else
                     (let db' = update_one (\<lambda>d. oid d = i)
                                  (\<lambda>d. d\<lparr> status := CANCELLED, updated_at := t \<rparr>) db
                      in case find_one (\<lambda>d. oid d = i) db' of
                           Some order' \<Rightarrow> (Inr (serialize_order order'), db')
                         | None \<Rightarrow> (Inl TypeError, db')))))"

text \<open>
  The state of the collection the endpoints maintain: an owner reference is \<open>None\<close> or the
  text of a user id, never the empty string.
\<close>

definition owners_wf :: "order list \<Rightarrow> bool" where
  "owners_wf db = list_all (\<lambda>d. user_id d \<noteq> Some []) db"

section \<open>Tokens (app/core/security.py, app/core/config.py)\<close>

text \<open>The settings the token functions read; \<open>config.py\<close> gives each a default.\<close>

record Settings =
  SECRET_KEY :: string
  ALGORITHM :: string
  ACCESS_TOKEN_EXPIRE_MINUTES :: int

definition timedelta_minutes :: "int \<Rightarrow> int" where
  "timedelta_minutes m = 60 * m"

text \<open>
  The claims of a token: the dictionary \<open>create_access_token\<close> is given and the payload
  \<open>get_current_user\<close> reads, with the two keys the code uses.
\<close>

record claims =
  sub :: "string option"
  exp :: "datetime option"

text \<open>
  A token is kept in its parts rather than as text: a string that does not split into a
  header, a payload and a signature, or the algorithm of the header, the payload and the
  signature. A payload is a JSON object of claims or anything else. The MAC scheme is a
  parameter: a function of the key and of what is signed, the header and the payload.
\<close>

datatype payload = Object claims | NotObject

datatype 'tag token = Unparsable string | JWS string payload 'tag

type_synonym 'tag mac = "string \<Rightarrow> string \<times> payload \<Rightarrow> 'tag"

text \<open>
  Modelled from the spec: \<open>jwt.encode\<close> of the python-jose library, which is not part of
  the repository. Following \<open>issueToken\<close>, it produces a signed, self-contained token that
  encodes the claims, signed with the key under a symmetric MAC scheme.
\<close>

definition jwt_encode :: "'tag mac \<Rightarrow> claims \<Rightarrow> string \<Rightarrow> string \<Rightarrow> 'tag token" where
  "jwt_encode mac to_encode key algorithm =
     JWS algorithm (Object to_encode) (mac key (algorithm, Object to_encode))"

text \<open>
  Modelled from the spec: \<open>jwt.decode\<close> of the python-jose library, which is not part of
  the repository. Following \<open>verifyToken\<close>, it fails (with \<open>JWTError\<close>) when the signature
  does not verify, when the payload is malformed, or when the expiry has passed, and
  returns the claims otherwise; a token whose algorithm is not among the accepted ones is
  refused. \<open>t\<close> is the clock at the time of the call.
\<close>

definition jwt_decode ::
  "'tag mac \<Rightarrow> datetime \<Rightarrow> 'tag token \<Rightarrow> string \<Rightarrow> string list \<Rightarrow> error + claims"
where
  "jwt_decode mac t token' key algorithms =
     (case token' of
        Unparsable s \<Rightarrow> Inl JWTError
      | JWS alg p tag \<Rightarrow>
          if alg \<notin> set algorithms then Inl JWTError
          else if tag \<noteq> mac key (alg, p) then Inl JWTError
          else case p of
                 NotObject \<Rightarrow> Inl JWTError
               | Object c \<Rightarrow>
                   (case exp c of
                      Some e \<Rightarrow> if e < t then Inl JWTError else Inr c
                    | None \<Rightarrow> Inr c))"

text \<open>
  \<open>create_access_token\<close>: \<open>utcnow\<close> is the clock. \<open>if expires_delta\<close> is Python's truth
  value: neither \<open>None\<close> nor a span of zero.
\<close>

definition create_access_token ::
  "'tag mac \<Rightarrow> Settings \<Rightarrow> datetime \<Rightarrow> claims \<Rightarrow> int option \<Rightarrow> 'tag token"
where
  "create_access_token mac settings utcnow data expires_delta =
     (let expire =
            (case expires_delta of
               Some d \<Rightarrow>
                 if d \<noteq> 0 then utcnow + d
                 else utcnow + timedelta_minutes (ACCESS_TOKEN_EXPIRE_MINUTES settings)
             | None \<Rightarrow> utcnow + timedelta_minutes (ACCESS_TOKEN_EXPIRE_MINUTES settings));
          to_encode = data\<lparr> exp := Some expire \<rparr>
      in jwt_encode mac to_encode (SECRET_KEY settings) (ALGORITHM settings))"

definition credentials_exception :: error where
  "credentials_exception = HTTPException 401 ''Could not validate credentials''"

text \<open>
  The \<open>try\<close> block of \<open>get_current_user\<close>: the subject of the token, or the credentials
  exception when \<open>jwt.decode\<close> raises or the payload has no \<open>sub\<close>.
\<close>

definition get_current_user_sub ::
  "'tag mac \<Rightarrow> Settings \<Rightarrow> datetime \<Rightarrow> 'tag token \<Rightarrow> error + string"
where
  "get_current_user_sub mac settings t token' =
     (case jwt_decode mac t token' (SECRET_KEY settings) [ALGORITHM settings] of
        Inl e \<Rightarrow> Inl credentials_exception
      | Inr payload \<Rightarrow>
          (case sub payload of
             None \<Rightarrow> Inl credentials_exception
           | Some user_id' \<Rightarrow> Inr user_id'))"

text \<open>
  \<open>get_current_user\<close>: no token, or the empty string, gives \<open>None\<close>; \<open>ObjectId(user_id)\<close> is
  outside the \<open>try\<close> block, so that its \<open>InvalidId\<close> is not turned into the credentials
  exception; \<open>users\<close> is the collection of the accounts.
\<close>

definition get_current_user ::
  "'tag mac \<Rightarrow> Settings \<Rightarrow> user list \<Rightarrow> datetime \<Rightarrow> 'tag token option \<Rightarrow> error + user option"
where
  "get_current_user mac settings users t token' =
     (case token' of
        None \<Rightarrow> Inr None
      | Some tok \<Rightarrow>
          if tok = Unparsable [] then Inr None
          else case get_current_user_sub mac settings t tok of
                 Inl e \<Rightarrow> Inl e
               | Inr user_id' \<Rightarrow>
                   (case ObjectId user_id' of
                      None \<Rightarrow> Inl InvalidId
                    | Some i \<Rightarrow>
                        (case find_one (\<lambda>u. uid u = i) users of
                           None \<Rightarrow> Inl credentials_exception
                         | Some u \<Rightarrow> Inr (Some u))))"

section \<open>Sample data\<close>

definition alice :: user where
  "alice = \<lparr> uid = [1, 2, 3, 4, 5, 6, 7, 8, 9, 10, 11, 12], is_active = True, is_admin = False \<rparr>"

definition bob :: user where
  "bob = \<lparr> uid = [187, 187, 187, 187, 187, 187, 187, 187, 187, 187, 187, 187],
           is_active = True, is_admin = False \<rparr>"

definition admin_user :: user where
  "admin_user = \<lparr> uid = [170, 170, 170, 170, 170, 170, 170, 170, 170, 170, 170, 170],
                  is_active = True, is_admin = True \<rparr>"

definition an_address :: ShippingAddress where
  "an_address =
     \<lparr> first_name = ''Alice'', last_name = ''Khan'', address = ''1 Mall Road'',
       apartment = None, city = ''Lahore'', postal_code = None, country = ''Pakistan'',
       phone = ''0300'' \<rparr>"

definition shawl :: "int \<Rightarrow> int \<Rightarrow> OrderItem" where
  "shawl p q =
     \<lparr> product_id = ''p1'', item_name = ''Ajrak shawl'', price = p, quantity = q,
       item_size = ''M'', image = ''shawl.jpg'' \<rparr>"

definition request :: "OrderItem list \<Rightarrow> string \<Rightarrow> PaymentMethod \<Rightarrow> string \<Rightarrow> OrderCreate" where
  "request its em pm sm =
     \<lparr> c_items = its, c_shipping_address = an_address, c_email = em, c_payment_method = pm,
       c_shipping_method = sm, c_notes = None \<rparr>"

definition env1 :: create_env where
  "env1 = \<lparr> now = 1000, timestamp = ''261104'', random_part = ''A1B2C3'',
             inserted_id = [17, 17, 17, 17, 17, 17, 17, 17, 17, 17, 17, 17] \<rparr>"

definition id1 :: string where
  "id1 = ''111111111111111111111111''"

text \<open>The order Alice places, paying on delivery, and the same order placed by a guest.\<close>

definition order1 :: order where
  "order1 = create_order_doc env1
              (request [shawl 24999 2] ''alice@example.com'' COD ''standard'') (Some alice)"

definition guest_order :: order where
  "guest_order = create_order_doc env1
                   (request [shawl 24999 2] ''Alice@Example.com'' COD ''standard'') None"

definition id2 :: string where
  "id2 = ''222222222222222222222222''"

text \<open>A collection holding Alice's order in a given status.\<close>

definition db_with :: "OrderStatus \<Rightarrow> order list" where
  "db_with st = [order1\<lparr> status := st \<rparr>]"

definition ship_patch :: OrderUpdate where
  "ship_patch = \<lparr> u_status = Some SHIPPED, u_payment_status = None,
                   u_tracking_number = Some ''TRK-1'', u_notes = None \<rparr>"




section \<open>The collection\<close>

lemma find_one_update_one:
  assumes "\<And>d. flt (upd d) = flt d"
  shows "find_one flt (update_one flt upd db) = map_option upd (find_one flt db)"
  unfolding find_one_def using assms by (induction db) auto

lemma update_one_no_match: "find_one flt db = None \<Longrightarrow> update_one flt upd db = db"
  unfolding find_one_def by (induction db) (auto split: if_splits)

lemma length_update_one: "length (update_one flt upd db) = length db"
  by (induction db) auto

lemma find_one_mem: "find_one flt db = Some d \<Longrightarrow> d \<in> set db \<and> flt d"
  unfolding find_one_def by (induction db) (auto split: if_splits)

lemma find_one_None_iff: "find_one flt db = None \<longleftrightarrow> \<not> list_ex flt db"
  unfolding find_one_def by (induction db) auto

lemma update_one_nth:
  assumes "find_one flt db = Some d" and "k < length db"
  shows "update_one flt upd db ! k = db ! k \<or> (db ! k = d \<and> update_one flt upd db ! k = upd d)"
  using assms unfolding find_one_def
proof (induction db arbitrary: k)
  case Nil
  then show ?case by simp
next
  case (Cons x xs)
  show ?case
  proof (cases "flt x")
    case True
    with Cons.prems show ?thesis by (cases k) auto
  next
    case False
    with Cons show ?thesis by (cases k) auto
  qed
qed

lemma list_all_update_one:
  assumes "list_all P db" and "\<And>d. P d \<Longrightarrow> P (upd d)"
  shows "list_all P (update_one flt upd db)"
  using assms by (induction db) auto

lemma str_oid_nonempty: "bs \<noteq> [] \<Longrightarrow> str_oid bs \<noteq> []"
  by (cases bs) (simp_all add: str_oid_def)

section \<open>Order creation\<close>

lemma create_order_result:
  "create_order db env order_data cu =
     (if \<not> encodable (create_order_doc env order_data cu) then (Inl OverflowError, db)
      else if list_ex (\<lambda>d. oid d = inserted_id env
                     \<or> order_number d = generate_order_number (timestamp env) (random_part env)) db
      then (Inl DuplicateKeyError, db)
      else (Inr (serialize_order (create_order_doc env order_data cu)),
            db @ [create_order_doc env order_data cu]))"
proof -
  have "oid (create_order_doc env order_data cu) = inserted_id env"
    and "order_number (create_order_doc env order_data cu)
           = generate_order_number (timestamp env) (random_part env)"
    by (simp_all add: create_order_doc_def Let_def)
  then show ?thesis
    by (simp add: create_order_def insert_one_def Let_def)
qed

lemma create_order_Inr:
  assumes "create_order db env order_data cu = (Inr r, db')"
  shows "r = serialize_order (create_order_doc env order_data cu)
       \<and> db' = db @ [create_order_doc env order_data cu]"
  using assms by (simp add: create_order_result split: if_splits)

lemma create_order_empty_db:
  assumes "encodable (create_order_doc env order_data cu)"
  shows "create_order [] env order_data cu =
           (Inr (serialize_order (create_order_doc env order_data cu)),
            [create_order_doc env order_data cu])"
  using assms by (simp add: create_order_result)

lemma create_order_overflow:
  assumes "\<not> encodable (create_order_doc env order_data cu)"
  shows "create_order db env order_data cu = (Inl OverflowError, db)"
  using assms by (simp add: create_order_result)

lemma items_create_order_doc: "items (create_order_doc env order_data cu) = c_items order_data"
  by (simp add: create_order_doc_def Let_def)

lemma subtotal_create_order_doc:
  "subtotal (create_order_doc env order_data cu) =
     (\<Sum>item\<leftarrow>c_items order_data. price item * quantity item)"
  by (simp add: create_order_doc_def Let_def)

lemma shipping_cost_create_order_doc:
  "shipping_cost (create_order_doc env order_data cu) =
     (if c_shipping_method order_data = ''express'' then 3000
      else if (\<Sum>item\<leftarrow>c_items order_data. price item * quantity item) \<ge> 50000 then 0
      else 1500)"
  by (simp add: create_order_doc_def Let_def)

lemma total_create_order_doc:
  "total (create_order_doc env order_data cu) =
     subtotal (create_order_doc env order_data cu)
     + shipping_cost (create_order_doc env order_data cu)"
  by (simp add: create_order_doc_def Let_def)

lemma status_create_order_doc:
  "status (create_order_doc env order_data cu) =
     (if c_payment_method order_data = CARD then CONFIRMED else PENDING)"
  by (simp add: create_order_doc_def Let_def)

lemma payment_status_create_order_doc:
  "payment_status (create_order_doc env order_data cu) =
     (if c_payment_method order_data = CARD then PAID else PAY_PENDING)"
  by (simp add: create_order_doc_def Let_def)

lemma user_id_create_order_doc:
  "user_id (create_order_doc env order_data cu) = map_option (\<lambda>u. str_oid (uid u)) cu"
  by (cases cu) (simp_all add: create_order_doc_def Let_def)

lemmas sample_defs = shawl_def request_def env1_def an_address_def

lemma encodable_no_items:
  assumes "c_items order_data = []"
  shows "encodable (create_order_doc env order_data cu)"
  using assms
  by (simp add: encodable_def int64_ok_def items_create_order_doc subtotal_create_order_doc
        shipping_cost_create_order_doc total_create_order_doc)

lemma encodable_samples:
  "encodable (create_order_doc env (request [shawl 100000 1] em pm sm) cu)"
  "encodable (create_order_doc env (request [shawl 24999 2] em pm sm) cu)"
  "encodable (create_order_doc env (request [] em pm sm) cu)"
  by (simp_all add: encodable_def int64_ok_def items_create_order_doc subtotal_create_order_doc
        shipping_cost_create_order_doc total_create_order_doc shawl_def request_def)

text \<open>
  Claim C1. For every list of line items and every shipping method, the order that
  \<open>create_order\<close> builds has as subtotal the sum of price times quantity over the items;
  as shipping cost 3000 when the shipping method is \<open>express\<close> (tested first, so express is
  never free), otherwise 0 when the subtotal is at least 50000, otherwise 1500; and as
  total the subtotal plus the shipping cost. The shipping cost is one of 0, 1500, 3000.
  Whenever \<open>create_order\<close> returns a response, the response and the stored document carry
  these amounts.
\<close>

theorem create_order_totals:
  fixes order_data :: OrderCreate
  shows "subtotal (create_order_doc env order_data cu)
           = (\<Sum>item\<leftarrow>c_items order_data. price item * quantity item)
       \<and> shipping_cost (create_order_doc env order_data cu)
           = (if c_shipping_method order_data = ''express'' then 3000
              else if subtotal (create_order_doc env order_data cu) \<ge> 50000 then 0
              else 1500)
       \<and> total (create_order_doc env order_data cu)
           = subtotal (create_order_doc env order_data cu)
             + shipping_cost (create_order_doc env order_data cu)
       \<and> shipping_cost (create_order_doc env order_data cu) \<in> {0, 1500, 3000}
       \<and> (\<forall>r db'. create_order db env order_data cu = (Inr r, db') \<longrightarrow>
             db' = db @ [create_order_doc env order_data cu]
           \<and> r_subtotal r = subtotal (create_order_doc env order_data cu)
           \<and> r_shipping_cost r = shipping_cost (create_order_doc env order_data cu)
           \<and> r_total r = total (create_order_doc env order_data cu))"
proof -
  let ?doc = "create_order_doc env order_data cu"
  have sub: "subtotal ?doc = (\<Sum>item\<leftarrow>c_items order_data. price item * quantity item)"
    by (rule subtotal_create_order_doc)
  have ship: "shipping_cost ?doc
                = (if c_shipping_method order_data = ''express'' then 3000
                   else if subtotal ?doc \<ge> 50000 then 0 else 1500)"
    by (simp only: shipping_cost_create_order_doc sub)
  have tot: "total ?doc = subtotal ?doc + shipping_cost ?doc"
    by (rule total_create_order_doc)
  have range: "shipping_cost ?doc \<in> {0, 1500, 3000}"
    by (simp add: shipping_cost_create_order_doc)
  have resp: "\<forall>r db'. create_order db env order_data cu = (Inr r, db') \<longrightarrow>
                db' = db @ [?doc] \<and> r_subtotal r = subtotal ?doc
              \<and> r_shipping_cost r = shipping_cost ?doc \<and> r_total r = total ?doc"
  proof (intro allI impI)
    fix r db'
    assume "create_order db env order_data cu = (Inr r, db')"
    then have "r = serialize_order ?doc" and "db' = db @ [?doc]"
      using create_order_Inr by blast+
    then show "db' = db @ [?doc] \<and> r_subtotal r = subtotal ?doc
             \<and> r_shipping_cost r = shipping_cost ?doc \<and> r_total r = total ?doc"
      by (simp add: serialize_order_def)
  qed
  from sub ship tot range resp show ?thesis by blast
qed

theorem create_order_totals_witness:
  "create_order [] env1 (request [shawl 100000 1] ''a@example.com'' COD ''express'') None
     = (Inr (serialize_order
               (create_order_doc env1 (request [shawl 100000 1] ''a@example.com'' COD ''express'') None)),
        [create_order_doc env1 (request [shawl 100000 1] ''a@example.com'' COD ''express'') None])
   \<and> r_subtotal (serialize_order
        (create_order_doc env1 (request [shawl 100000 1] ''a@example.com'' COD ''express'') None))
       = 100000
   \<and> r_shipping_cost (serialize_order
        (create_order_doc env1 (request [shawl 100000 1] ''a@example.com'' COD ''express'') None))
       = 3000
   \<and> r_total (serialize_order
        (create_order_doc env1 (request [shawl 100000 1] ''a@example.com'' COD ''express'') None))
       = 103000
   \<and> shipping_cost (create_order_doc env1
        (request [shawl 25000 2] ''a@example.com'' COD ''standard'') None) = 0
   \<and> shipping_cost (create_order_doc env1
        (request [shawl 49999 1] ''a@example.com'' COD ''standard'') None) = 1500"
proof -
  let ?rq = "request [shawl 100000 1] ''a@example.com'' COD ''express''"
  have run: "create_order [] env1 ?rq None
               = (Inr (serialize_order (create_order_doc env1 ?rq None)),
                  [create_order_doc env1 ?rq None])"
    by (rule create_order_empty_db [OF encodable_samples(1)])
  have express: "c_shipping_method ?rq = ''express''"
    by (simp add: request_def)
  have sum1: "(\<Sum>item\<leftarrow>c_items ?rq. price item * quantity item) = 100000"
    by (simp add: sample_defs)
  have sum2: "(\<Sum>item\<leftarrow>c_items (request [shawl 25000 2] ''a@example.com'' COD ''standard'').
                 price item * quantity item) = 50000"
    by (simp add: sample_defs)
  have sum3: "(\<Sum>item\<leftarrow>c_items (request [shawl 49999 1] ''a@example.com'' COD ''standard'').
                 price item * quantity item) = 49999"
    by (simp add: sample_defs)
  have std: "c_shipping_method (request its ''a@example.com'' COD ''standard'') \<noteq> ''express''" for its
    by (simp add: request_def)
  note t1 = create_order_totals [of env1 ?rq None "[]"]
  note t2 = create_order_totals
              [of env1 "request [shawl 25000 2] ''a@example.com'' COD ''standard''" None "[]"]
  note t3 = create_order_totals
              [of env1 "request [shawl 49999 1] ''a@example.com'' COD ''standard''" None "[]"]
  from t1 run express sum1 have a:
    "r_subtotal (serialize_order (create_order_doc env1 ?rq None)) = 100000
   \<and> r_shipping_cost (serialize_order (create_order_doc env1 ?rq None)) = 3000
   \<and> r_total (serialize_order (create_order_doc env1 ?rq None)) = 103000"
    by simp
  from t2 sum2 std have b:
    "shipping_cost (create_order_doc env1
        (request [shawl 25000 2] ''a@example.com'' COD ''standard'') None) = 0"
    by simp
  from t3 sum3 std have c:
    "shipping_cost (create_order_doc env1
        (request [shawl 49999 1] ''a@example.com'' COD ''standard'') None) = 1500"
    by simp
  from run a b c show ?thesis by simp
qed

text \<open>
  Claim C2. For every order-creation request, when the payment method is \<open>card\<close> the
  created order has payment status \<open>paid\<close> and status \<open>confirmed\<close>; the override is
  unconditional, the handler has no branch in which the payment fails. When the payment
  method is \<open>cod\<close> or \<open>bank\<close> the created order has payment status \<open>pending\<close> and status
  \<open>pending\<close>. Whenever \<open>create_order\<close> returns a response, the response and the stored
  document carry these two fields.
\<close>

theorem create_order_payment:
  fixes order_data :: OrderCreate
  shows "(c_payment_method order_data = CARD \<longrightarrow>
            payment_status (create_order_doc env order_data cu) = PAID
          \<and> status (create_order_doc env order_data cu) = CONFIRMED)
       \<and> (c_payment_method order_data = COD \<or> c_payment_method order_data = BANK_TRANSFER \<longrightarrow>
            payment_status (create_order_doc env order_data cu) = PAY_PENDING
          \<and> status (create_order_doc env order_data cu) = PENDING)
       \<and> (\<forall>r db'. create_order db env order_data cu = (Inr r, db') \<longrightarrow>
             db' = db @ [create_order_doc env order_data cu]
           \<and> r_payment_status r = payment_status (create_order_doc env order_data cu)
           \<and> r_status r = status (create_order_doc env order_data cu))"
proof -
  let ?doc = "create_order_doc env order_data cu"
  have card: "c_payment_method order_data = CARD \<longrightarrow>
                payment_status ?doc = PAID \<and> status ?doc = CONFIRMED"
    by (simp add: status_create_order_doc payment_status_create_order_doc)
  have other: "c_payment_method order_data = COD \<or> c_payment_method order_data = BANK_TRANSFER \<longrightarrow>
                 payment_status ?doc = PAY_PENDING \<and> status ?doc = PENDING"
    by (auto simp add: status_create_order_doc payment_status_create_order_doc)
  have resp: "\<forall>r db'. create_order db env order_data cu = (Inr r, db') \<longrightarrow>
                db' = db @ [?doc] \<and> r_payment_status r = payment_status ?doc
              \<and> r_status r = status ?doc"
  proof (intro allI impI)
    fix r db'
    assume "create_order db env order_data cu = (Inr r, db')"
    then have "r = serialize_order ?doc" and "db' = db @ [?doc]"
      using create_order_Inr by blast+
    then show "db' = db @ [?doc] \<and> r_payment_status r = payment_status ?doc
             \<and> r_status r = status ?doc"
      by (simp add: serialize_order_def)
  qed
  from card other resp show ?thesis by blast
qed

theorem create_order_payment_witness:
  "c_payment_method (request [shawl 24999 2] ''a@example.com'' CARD ''standard'') = CARD
   \<and> create_order [] env1 (request [shawl 24999 2] ''a@example.com'' CARD ''standard'') None
       = (Inr (serialize_order
                 (create_order_doc env1 (request [shawl 24999 2] ''a@example.com'' CARD ''standard'') None)),
          [create_order_doc env1 (request [shawl 24999 2] ''a@example.com'' CARD ''standard'') None])
   \<and> r_payment_status (serialize_order
        (create_order_doc env1 (request [shawl 24999 2] ''a@example.com'' CARD ''standard'') None))
       = PAID
   \<and> r_status (serialize_order
        (create_order_doc env1 (request [shawl 24999 2] ''a@example.com'' CARD ''standard'') None))
       = CONFIRMED
   \<and> status (create_order_doc env1
        (request [shawl 24999 2] ''a@example.com'' COD ''standard'') None) = PENDING
   \<and> payment_status (create_order_doc env1
        (request [shawl 24999 2] ''a@example.com'' COD ''standard'') None) = PAY_PENDING
   \<and> status (create_order_doc env1
        (request [shawl 24999 2] ''a@example.com'' BANK_TRANSFER ''standard'') None) = PENDING
   \<and> payment_status (create_order_doc env1
        (request [shawl 24999 2] ''a@example.com'' BANK_TRANSFER ''standard'') None) = PAY_PENDING"
proof -
  let ?rq = "request [shawl 24999 2] ''a@example.com'' CARD ''standard''"
  have pm: "c_payment_method (request its em m sm) = m" for its em m sm
    by (simp add: request_def)
  have run: "create_order [] env1 ?rq None
               = (Inr (serialize_order (create_order_doc env1 ?rq None)),
                  [create_order_doc env1 ?rq None])"
    by (rule create_order_empty_db [OF encodable_samples(2)])
  note t1 = create_order_payment [of ?rq env1 None "[]"]
  note t2 = create_order_payment
              [of "request [shawl 24999 2] ''a@example.com'' COD ''standard''" env1 None "[]"]
  note t3 = create_order_payment
              [of "request [shawl 24999 2] ''a@example.com'' BANK_TRANSFER ''standard''" env1 None "[]"]
  from t1 run pm have a:
    "r_payment_status (serialize_order (create_order_doc env1 ?rq None)) = PAID
   \<and> r_status (serialize_order (create_order_doc env1 ?rq None)) = CONFIRMED"
    by simp
  from t2 pm have b:
    "status (create_order_doc env1
        (request [shawl 24999 2] ''a@example.com'' COD ''standard'') None) = PENDING
   \<and> payment_status (create_order_doc env1
        (request [shawl 24999 2] ''a@example.com'' COD ''standard'') None) = PAY_PENDING"
    by simp
  from t3 pm have c:
    "status (create_order_doc env1
        (request [shawl 24999 2] ''a@example.com'' BANK_TRANSFER ''standard'') None) = PENDING
   \<and> payment_status (create_order_doc env1
        (request [shawl 24999 2] ''a@example.com'' BANK_TRANSFER ''standard'') None) = PAY_PENDING"
    by simp
  from pm run a b c show ?thesis by simp
qed

section \<open>Cancellation\<close>

lemma ObjectId_id1: "ObjectId id1 = Some [17, 17, 17, 17, 17, 17, 17, 17, 17, 17, 17, 17]"
  by code_simp

lemma ObjectId_id2: "ObjectId id2 = Some [34, 34, 34, 34, 34, 34, 34, 34, 34, 34, 34, 34]"
  by code_simp

lemma ObjectId_not_an_id: "ObjectId ''not-an-id'' = None"
  by (simp add: ObjectId_def)

lemma str_oid_alice: "str_oid (uid alice) = ''0102030405060708090a0b0c''"
  by (simp add: alice_def str_oid_def hexdigits_def)

lemma str_oid_bob: "str_oid (uid bob) = ''bbbbbbbbbbbbbbbbbbbbbbbb''"
  by (simp add: bob_def str_oid_def hexdigits_def)

lemma str_oid_admin_user: "str_oid (uid admin_user) = ''aaaaaaaaaaaaaaaaaaaaaaaa''"
  by (simp add: admin_user_def str_oid_def hexdigits_def)

lemma order1_fields:
  "oid order1 = [17, 17, 17, 17, 17, 17, 17, 17, 17, 17, 17, 17]"
  "order_number order1 = ''AJR-261104-A1B2C3''"
  "user_id order1 = Some ''0102030405060708090a0b0c''"
  "status order1 = PENDING"
  "email order1 = ''alice@example.com''"
  by (simp_all add: order1_def create_order_doc_def Let_def sample_defs str_oid_alice
        generate_order_number_def)

lemma guest_order_fields:
  "oid guest_order = [17, 17, 17, 17, 17, 17, 17, 17, 17, 17, 17, 17]"
  "order_number guest_order = ''AJR-261104-A1B2C3''"
  "user_id guest_order = None"
  "status guest_order = PENDING"
  "email guest_order = ''Alice@Example.com''"
  by (simp_all add: guest_order_def create_order_doc_def Let_def sample_defs
        generate_order_number_def)

lemma find_one_db_with:
  "find_one (\<lambda>d. oid d = [17, 17, 17, 17, 17, 17, 17, 17, 17, 17, 17, 17]) (db_with st)
     = Some (order1\<lparr> status := st \<rparr>)"
  "find_one (\<lambda>d. oid d = [34, 34, 34, 34, 34, 34, 34, 34, 34, 34, 34, 34]) (db_with st) = None"
  by (simp_all add: find_one_def db_with_def order1_fields)

lemma cancel_order_success:
  assumes "ObjectId order_id = Some i"
    and "find_one (\<lambda>d. oid d = i) db = Some order"
    and "user_id order = Some (str_oid (uid u)) \<or> is_admin u"
    and "status order = PENDING \<or> status order = CONFIRMED"
  shows "cancel_order db t order_id u =
           (Inr (serialize_order (order\<lparr> status := CANCELLED, updated_at := t \<rparr>)),
            update_one (\<lambda>d. oid d = i) (\<lambda>d. d\<lparr> status := CANCELLED, updated_at := t \<rparr>) db)"
proof -
  have refetch: "find_one (\<lambda>d. oid d = i)
                   (update_one (\<lambda>d. oid d = i) (\<lambda>d. d\<lparr> status := CANCELLED, updated_at := t \<rparr>) db)
                 = Some (order\<lparr> status := CANCELLED, updated_at := t \<rparr>)"
    using assms(2) by (simp add: find_one_update_one)
  from assms(3) have auth: "\<not> (user_id order \<noteq> Some (str_oid (uid u)) \<and> \<not> is_admin u)"
    by blast
  from assms(4) have st: "\<not> status order \<notin> set [PENDING, CONFIRMED]"
    by auto
  show ?thesis
    unfolding cancel_order_def Let_def
    by (simp only: assms(1) assms(2) option.case auth st if_False refetch)
qed

lemma cancel_order_not_found:
  assumes "ObjectId order_id = Some i" and "find_one (\<lambda>d. oid d = i) db = None"
  shows "cancel_order db t order_id u = (Inl (HTTPException 404 ''Order not found''), db)"
  using assms by (simp add: cancel_order_def)

lemma cancel_order_forbidden:
  assumes "ObjectId order_id = Some i"
    and "find_one (\<lambda>d. oid d = i) db = Some order"
    and "user_id order \<noteq> Some (str_oid (uid u))" and "\<not> is_admin u"
  shows "cancel_order db t order_id u = (Inl (HTTPException 403 ''Not authorized''), db)"
  using assms by (simp add: cancel_order_def)

lemma cancel_order_invalid_transition:
  assumes "ObjectId order_id = Some i"
    and "find_one (\<lambda>d. oid d = i) db = Some order"
    and "user_id order = Some (str_oid (uid u)) \<or> is_admin u"
    and "status order \<noteq> PENDING" and "status order \<noteq> CONFIRMED"
  shows "cancel_order db t order_id u =
           (Inl (HTTPException 400 ''Cannot cancel order in current status''), db)"
  using assms by (auto simp add: cancel_order_def)

text \<open>
  Claim C3. For every authenticated caller and every order id (the text of an object id),
  \<open>cancel_order\<close> fails with 404 \<open>Order not found\<close> if no order has the id; fails with 403 if
  the caller is neither the owner of the order nor an admin; for a caller who is the owner
  or an admin, fails with 400 \<open>Cannot cancel order in current status\<close> if the status is
  neither pending nor confirmed, in particular from shipped, delivered and cancelled; and
  succeeds, returning the order as cancelled, from pending and from confirmed. The checks
  are made in this order, and a failed request leaves the collection as it was.
\<close>

theorem cancel_order_outcome:
  assumes "ObjectId order_id = Some i"
  shows "(find_one (\<lambda>d. oid d = i) db = None \<longrightarrow>
            cancel_order db t order_id u = (Inl (HTTPException 404 ''Order not found''), db))
       \<and> (\<forall>order. find_one (\<lambda>d. oid d = i) db = Some order \<longrightarrow>
            (user_id order \<noteq> Some (str_oid (uid u)) \<and> \<not> is_admin u \<longrightarrow>
               cancel_order db t order_id u = (Inl (HTTPException 403 ''Not authorized''), db))
          \<and> ((user_id order = Some (str_oid (uid u)) \<or> is_admin u)
               \<and> status order \<noteq> PENDING \<and> status order \<noteq> CONFIRMED \<longrightarrow>
               cancel_order db t order_id u
                 = (Inl (HTTPException 400 ''Cannot cancel order in current status''), db))
          \<and> ((user_id order = Some (str_oid (uid u)) \<or> is_admin u)
               \<and> status order \<in> {SHIPPED, DELIVERED, CANCELLED} \<longrightarrow>
               cancel_order db t order_id u
                 = (Inl (HTTPException 400 ''Cannot cancel order in current status''), db))
          \<and> ((user_id order = Some (str_oid (uid u)) \<or> is_admin u)
               \<and> (status order = PENDING \<or> status order = CONFIRMED) \<longrightarrow>
               (\<exists>r db'. cancel_order db t order_id u = (Inr r, db') \<and> r_status r = CANCELLED)))"
proof (intro conjI allI impI)
  assume "find_one (\<lambda>d. oid d = i) db = None"
  with assms show "cancel_order db t order_id u = (Inl (HTTPException 404 ''Order not found''), db)"
    by (rule cancel_order_not_found)
next
  fix order
  assume "find_one (\<lambda>d. oid d = i) db = Some order"
    and "user_id order \<noteq> Some (str_oid (uid u)) \<and> \<not> is_admin u"
  with assms show "cancel_order db t order_id u = (Inl (HTTPException 403 ''Not authorized''), db)"
    by (simp add: cancel_order_forbidden)
next
  fix order
  assume "find_one (\<lambda>d. oid d = i) db = Some order"
    and "(user_id order = Some (str_oid (uid u)) \<or> is_admin u)
         \<and> status order \<noteq> PENDING \<and> status order \<noteq> CONFIRMED"
  with assms show "cancel_order db t order_id u
                     = (Inl (HTTPException 400 ''Cannot cancel order in current status''), db)"
    by (simp add: cancel_order_invalid_transition)
next
  fix order
  assume found: "find_one (\<lambda>d. oid d = i) db = Some order"
    and "(user_id order = Some (str_oid (uid u)) \<or> is_admin u)
         \<and> status order \<in> {SHIPPED, DELIVERED, CANCELLED}"
  then have "user_id order = Some (str_oid (uid u)) \<or> is_admin u"
    and "status order \<noteq> PENDING" and "status order \<noteq> CONFIRMED"
    by auto
  with assms found show "cancel_order db t order_id u
                     = (Inl (HTTPException 400 ''Cannot cancel order in current status''), db)"
    by (rule cancel_order_invalid_transition)
next
  fix order
  assume found: "find_one (\<lambda>d. oid d = i) db = Some order"
    and ok: "(user_id order = Some (str_oid (uid u)) \<or> is_admin u)
             \<and> (status order = PENDING \<or> status order = CONFIRMED)"
  from ok have "user_id order = Some (str_oid (uid u)) \<or> is_admin u"
    and "status order = PENDING \<or> status order = CONFIRMED"
    by blast+
  with assms found have "cancel_order db t order_id u =
           (Inr (serialize_order (order\<lparr> status := CANCELLED, updated_at := t \<rparr>)),
            update_one (\<lambda>d. oid d = i) (\<lambda>d. d\<lparr> status := CANCELLED, updated_at := t \<rparr>) db)"
    by (rule cancel_order_success)
  then show "\<exists>r db'. cancel_order db t order_id u = (Inr r, db') \<and> r_status r = CANCELLED"
    by (simp add: serialize_order_def)
qed

lemma users_flags: "\<not> is_admin alice" "\<not> is_admin bob" "is_admin admin_user"
  by (simp_all add: alice_def bob_def admin_user_def)

theorem cancel_order_outcome_witness:
  "ObjectId id1 = Some [17, 17, 17, 17, 17, 17, 17, 17, 17, 17, 17, 17]
   \<and> ObjectId id2 = Some [34, 34, 34, 34, 34, 34, 34, 34, 34, 34, 34, 34]
   \<and> cancel_order (db_with PENDING) 2000 id2 alice
       = (Inl (HTTPException 404 ''Order not found''), db_with PENDING)
   \<and> cancel_order (db_with PENDING) 2000 id1 bob
       = (Inl (HTTPException 403 ''Not authorized''), db_with PENDING)
   \<and> cancel_order (db_with SHIPPED) 2000 id1 alice
       = (Inl (HTTPException 400 ''Cannot cancel order in current status''), db_with SHIPPED)
   \<and> cancel_order (db_with DELIVERED) 2000 id1 admin_user
       = (Inl (HTTPException 400 ''Cannot cancel order in current status''), db_with DELIVERED)
   \<and> cancel_order (db_with CANCELLED) 2000 id1 alice
       = (Inl (HTTPException 400 ''Cannot cancel order in current status''), db_with CANCELLED)
   \<and> (\<exists>r db'. cancel_order (db_with PENDING) 2000 id1 alice = (Inr r, db')
               \<and> r_status r = CANCELLED)
   \<and> (\<exists>r db'. cancel_order (db_with CONFIRMED) 2000 id1 admin_user = (Inr r, db')
               \<and> r_status r = CANCELLED)"
proof -
  note at1 = cancel_order_outcome [OF ObjectId_id1]
  note at2 = cancel_order_outcome [OF ObjectId_id2]
  have owner: "user_id (order1\<lparr> status := st \<rparr>) = Some (str_oid (uid alice))" for st
    by (simp add: order1_fields str_oid_alice)
  have not_owner: "user_id (order1\<lparr> status := st \<rparr>) \<noteq> Some (str_oid (uid bob))" for st
    by (simp add: order1_fields str_oid_bob)
  have a: "cancel_order (db_with PENDING) 2000 id2 alice
             = (Inl (HTTPException 404 ''Order not found''), db_with PENDING)"
    using at2 [of "db_with PENDING" 2000 alice] by (simp add: find_one_db_with)
  have b: "cancel_order (db_with PENDING) 2000 id1 bob
             = (Inl (HTTPException 403 ''Not authorized''), db_with PENDING)"
    using at1 [of "db_with PENDING" 2000 bob] not_owner
    by (simp add: find_one_db_with users_flags)
  have c: "cancel_order (db_with SHIPPED) 2000 id1 alice
             = (Inl (HTTPException 400 ''Cannot cancel order in current status''), db_with SHIPPED)"
    using at1 [of "db_with SHIPPED" 2000 alice] owner
    by (simp add: find_one_db_with)
  have d: "cancel_order (db_with DELIVERED) 2000 id1 admin_user
             = (Inl (HTTPException 400 ''Cannot cancel order in current status''), db_with DELIVERED)"
    using at1 [of "db_with DELIVERED" 2000 admin_user]
    by (simp add: find_one_db_with users_flags)
  have e: "cancel_order (db_with CANCELLED) 2000 id1 alice
             = (Inl (HTTPException 400 ''Cannot cancel order in current status''), db_with CANCELLED)"
    using at1 [of "db_with CANCELLED" 2000 alice] owner
    by (simp add: find_one_db_with)
  have f: "\<exists>r db'. cancel_order (db_with PENDING) 2000 id1 alice = (Inr r, db')
                  \<and> r_status r = CANCELLED"
    using at1 [of "db_with PENDING" 2000 alice] owner
    by (simp add: find_one_db_with)
  have g: "\<exists>r db'. cancel_order (db_with CONFIRMED) 2000 id1 admin_user = (Inr r, db')
                  \<and> r_status r = CANCELLED"
    using at1 [of "db_with CONFIRMED" 2000 admin_user]
    by (simp add: find_one_db_with users_flags)
  from ObjectId_id1 ObjectId_id2 a b c d e f g show ?thesis by blast
qed

text \<open>
  Claim C9. Frame condition of a successful \<open>cancel_order\<close>: for every order in status
  pending or confirmed cancelled by its owner or an admin, the stored order afterwards has
  status \<open>cancelled\<close> and the clock reading as \<open>updated_at\<close>, and every other field (items,
  shipping address, email, subtotal, shipping cost, total, payment method, payment status,
  shipping method, order number, user id, tracking number, notes, \<open>created_at\<close>) is as
  before. The response is this order, and no other document of the collection changes.
\<close>

theorem cancel_order_frame:
  assumes "ObjectId order_id = Some i"
    and "find_one (\<lambda>d. oid d = i) db = Some order"
    and "status order = PENDING \<or> status order = CONFIRMED"
    and "user_id order = Some (str_oid (uid u)) \<or> is_admin u"
  shows "\<exists>order' db'.
           cancel_order db t order_id u = (Inr (serialize_order order'), db')
         \<and> find_one (\<lambda>d. oid d = i) db' = Some order'
         \<and> status order' = CANCELLED
         \<and> updated_at order' = t
         \<and> items order' = items order
         \<and> shipping_address order' = shipping_address order
         \<and> email order' = email order
         \<and> subtotal order' = subtotal order
         \<and> shipping_cost order' = shipping_cost order
         \<and> total order' = total order
         \<and> payment_method order' = payment_method order
         \<and> payment_status order' = payment_status order
         \<and> shipping_method order' = shipping_method order
         \<and> order_number order' = order_number order
         \<and> user_id order' = user_id order
         \<and> tracking_number order' = tracking_number order
         \<and> order_notes order' = order_notes order
         \<and> created_at order' = created_at order
         \<and> oid order' = oid order
         \<and> length db' = length db
         \<and> (\<forall>k<length db. db' ! k = db ! k \<or> (db ! k = order \<and> db' ! k = order'))"
proof -
  let ?upd = "\<lambda>d. d\<lparr> status := CANCELLED, updated_at := t \<rparr>"
  let ?db' = "update_one (\<lambda>d. oid d = i) ?upd db"
  have run: "cancel_order db t order_id u = (Inr (serialize_order (?upd order)), ?db')"
    using assms(1) assms(2) assms(4) assms(3) by (rule cancel_order_success)
  have stored: "find_one (\<lambda>d. oid d = i) ?db' = Some (?upd order)"
    using assms(2) by (simp add: find_one_update_one)
  have len: "length ?db' = length db"
    by (rule length_update_one)
  have others: "\<forall>k<length db. ?db' ! k = db ! k \<or> (db ! k = order \<and> ?db' ! k = ?upd order)"
    using update_one_nth [OF assms(2)] by blast
  have fields: "status (?upd order) = CANCELLED \<and> updated_at (?upd order) = t
         \<and> items (?upd order) = items order
         \<and> shipping_address (?upd order) = shipping_address order
         \<and> email (?upd order) = email order
         \<and> subtotal (?upd order) = subtotal order
         \<and> shipping_cost (?upd order) = shipping_cost order
         \<and> total (?upd order) = total order
         \<and> payment_method (?upd order) = payment_method order
         \<and> payment_status (?upd order) = payment_status order
         \<and> shipping_method (?upd order) = shipping_method order
         \<and> order_number (?upd order) = order_number order
         \<and> user_id (?upd order) = user_id order
         \<and> tracking_number (?upd order) = tracking_number order
         \<and> order_notes (?upd order) = order_notes order
         \<and> created_at (?upd order) = created_at order
         \<and> oid (?upd order) = oid order"
    by simp
  from run stored len others fields show ?thesis
    by (intro exI [of _ "?upd order"] exI [of _ ?db']) simp
qed

theorem cancel_order_frame_witness:
  "ObjectId id1 = Some [17, 17, 17, 17, 17, 17, 17, 17, 17, 17, 17, 17]
   \<and> find_one (\<lambda>d. oid d = [17, 17, 17, 17, 17, 17, 17, 17, 17, 17, 17, 17]) (db_with CONFIRMED)
       = Some (order1\<lparr> status := CONFIRMED \<rparr>)
   \<and> status (order1\<lparr> status := CONFIRMED \<rparr>) = CONFIRMED
   \<and> user_id (order1\<lparr> status := CONFIRMED \<rparr>) = Some (str_oid (uid alice))
   \<and> cancel_order (db_with CONFIRMED) 2000 id1 alice
       = (Inr (serialize_order (order1\<lparr> status := CANCELLED, updated_at := 2000 \<rparr>)),
          [order1\<lparr> status := CANCELLED, updated_at := 2000 \<rparr>])
   \<and> (\<exists>order' db'.
         cancel_order (db_with CONFIRMED) 2000 id1 alice = (Inr (serialize_order order'), db')
       \<and> status order' = CANCELLED \<and> updated_at order' = 2000
       \<and> email order' = ''alice@example.com'' \<and> total order' = 51498
       \<and> length db' = 1)"
proof -
  have h2: "find_one (\<lambda>d. oid d = [17, 17, 17, 17, 17, 17, 17, 17, 17, 17, 17, 17])
              (db_with CONFIRMED) = Some (order1\<lparr> status := CONFIRMED \<rparr>)"
    by (rule find_one_db_with)
  have h3: "status (order1\<lparr> status := CONFIRMED \<rparr>) = PENDING
          \<or> status (order1\<lparr> status := CONFIRMED \<rparr>) = CONFIRMED"
    by simp
  have h4: "user_id (order1\<lparr> status := CONFIRMED \<rparr>) = Some (str_oid (uid alice))
          \<or> is_admin alice"
    by (simp add: order1_fields str_oid_alice)
  have tot: "total order1 = 51498"
    by (simp add: order1_def create_order_doc_def Let_def sample_defs)
  have len: "length (db_with CONFIRMED) = 1"
    by (simp add: db_with_def)
  have run: "cancel_order (db_with CONFIRMED) 2000 id1 alice
       = (Inr (serialize_order (order1\<lparr> status := CANCELLED, updated_at := 2000 \<rparr>)),
          [order1\<lparr> status := CANCELLED, updated_at := 2000 \<rparr>])"
    using cancel_order_success [OF ObjectId_id1 h2 h4 h3, of 2000]
    by (simp add: db_with_def order1_fields)
  from cancel_order_frame [OF ObjectId_id1 h2 h3 h4, of 2000]
  have "\<exists>order' db'.
         cancel_order (db_with CONFIRMED) 2000 id1 alice = (Inr (serialize_order order'), db')
       \<and> status order' = CANCELLED \<and> updated_at order' = 2000
       \<and> email order' = ''alice@example.com'' \<and> total order' = 51498
       \<and> length db' = 1"
    by (simp add: order1_fields tot len) blast
  with ObjectId_id1 h2 h4 run show ?thesis
    by (simp add: users_flags)
qed

text \<open>
  Claim C10. For every guest order (its \<open>user_id\<close> is \<open>None\<close>) and every authenticated
  caller whose admin flag is false, \<open>cancel_order\<close> fails with 403: a guest order is
  cancelled through this endpoint by an admin only.
\<close>

theorem cancel_order_guest_forbidden:
  assumes "ObjectId order_id = Some i"
    and "find_one (\<lambda>d. oid d = i) db = Some order"
    and "user_id order = None"
    and "\<not> is_admin u"
  shows "cancel_order db t order_id u = (Inl (HTTPException 403 ''Not authorized''), db)"
  using assms by (simp add: cancel_order_forbidden)

theorem cancel_order_guest_forbidden_witness:
  "ObjectId id1 = Some [17, 17, 17, 17, 17, 17, 17, 17, 17, 17, 17, 17]
   \<and> find_one (\<lambda>d. oid d = [17, 17, 17, 17, 17, 17, 17, 17, 17, 17, 17, 17]) [guest_order]
       = Some guest_order
   \<and> user_id guest_order = None
   \<and> \<not> is_admin alice
   \<and> cancel_order [guest_order] 2000 id1 alice
       = (Inl (HTTPException 403 ''Not authorized''), [guest_order])"
proof -
  have h2: "find_one (\<lambda>d. oid d = [17, 17, 17, 17, 17, 17, 17, 17, 17, 17, 17, 17]) [guest_order]
              = Some guest_order"
    by (simp add: find_one_def guest_order_fields)
  have h3: "user_id guest_order = None"
    by (rule guest_order_fields)
  have h4: "\<not> is_admin alice"
    by (rule users_flags)
  from cancel_order_guest_forbidden [OF ObjectId_id1 h2 h3 h4] ObjectId_id1 h2 h3 h4
  show ?thesis by simp
qed

section \<open>Identifiers that are not object ids\<close>

lemma cancel_order_invalid_id:
  "ObjectId order_id = None \<Longrightarrow>
     cancel_order db t order_id u = (Inl (HTTPException 400 ''Invalid order ID''), db)"
  by (simp add: cancel_order_def)

lemma update_order_invalid_id:
  "ObjectId order_id = None \<Longrightarrow>
     update_order db t order_id order_data a = (Inl (HTTPException 400 ''Invalid order ID''), db)"
  by (simp add: update_order_def)

text \<open>
  Claim C8, as stated: for every identifier string that is not a structurally valid
  internal id, \<open>cancel_order\<close> and \<open>update_order\<close> fail with the 404 error, the same error as
  when no order matches. It fails at the identifier \<open>not-an-id\<close>, which \<open>ObjectId\<close> rejects:
  both handlers raise 400 \<open>Invalid order ID\<close>, while an object id that no order has gives
  404.
\<close>

theorem malformed_order_id_counterexample:
  "ObjectId ''not-an-id'' = None
   \<and> cancel_order (db_with PENDING) 2000 ''not-an-id'' alice
       = (Inl (HTTPException 400 ''Invalid order ID''), db_with PENDING)
   \<and> fst (cancel_order (db_with PENDING) 2000 ''not-an-id'' alice)
       \<noteq> Inl (HTTPException 404 ''Order not found'')
   \<and> update_order (db_with PENDING) 2000 ''not-an-id'' ship_patch admin_user
       = (Inl (HTTPException 400 ''Invalid order ID''), db_with PENDING)
   \<and> fst (update_order (db_with PENDING) 2000 ''not-an-id'' ship_patch admin_user)
       \<noteq> Inl (HTTPException 404 ''Order not found'')
   \<and> cancel_order (db_with PENDING) 2000 id2 alice
       = (Inl (HTTPException 404 ''Order not found''), db_with PENDING)"
proof -
  have a: "cancel_order (db_with PENDING) 2000 ''not-an-id'' alice
             = (Inl (HTTPException 400 ''Invalid order ID''), db_with PENDING)"
    using ObjectId_not_an_id by (rule cancel_order_invalid_id)
  have b: "update_order (db_with PENDING) 2000 ''not-an-id'' ship_patch admin_user
             = (Inl (HTTPException 400 ''Invalid order ID''), db_with PENDING)"
    using ObjectId_not_an_id by (rule update_order_invalid_id)
  have c: "cancel_order (db_with PENDING) 2000 id2 alice
             = (Inl (HTTPException 404 ''Order not found''), db_with PENDING)"
    using ObjectId_id2 find_one_db_with(2) by (rule cancel_order_not_found)
  from ObjectId_not_an_id a b c show ?thesis by simp
qed

lemma update_order_not_found:
  assumes "ObjectId order_id = Some i" and "find_one (\<lambda>d. oid d = i) db = None"
  shows "update_order db t order_id order_data a
           = (Inl (HTTPException 404 ''Order not found''), db)"
proof -
  from assms(2) have "matched_count (\<lambda>d. oid d = i) db = 0"
    by (simp add: matched_count_def find_one_None_iff)
  moreover from assms(2) have "update_one (\<lambda>d. oid d = i) (update_data order_data t) db = db"
    by (rule update_one_no_match)
  ultimately show ?thesis
    using assms(1) by (simp add: update_order_def)
qed

lemma ObjectId_spaced: "ObjectId ''11 11 11 11 11 11 11 11 '' = Some [17, 17, 17, 17, 17, 17, 17, 17]"
  by code_simp

text \<open>
  Claim C8, amended: for every identifier string that \<open>ObjectId\<close> rejects (the string has
  not 24 characters, or \<open>bytes.fromhex\<close> does not accept it), \<open>cancel_order\<close> and
  \<open>update_order\<close> fail with the 400 error \<open>Invalid order ID\<close>, which is not the 404 error
  raised when no order matches, and leave the collection as it was. For every identifier
  string that \<open>ObjectId\<close> accepts and that no order has as its id, among them the strings of
  24 characters with white space between the pairs of digits, both fail with the 404 error.
\<close>

theorem malformed_order_id_rejected:
  "(ObjectId order_id = None \<longrightarrow>
        cancel_order db t order_id u = (Inl (HTTPException 400 ''Invalid order ID''), db)
      \<and> update_order db t order_id order_data a
          = (Inl (HTTPException 400 ''Invalid order ID''), db)
      \<and> fst (cancel_order db t order_id u) \<noteq> Inl (HTTPException 404 ''Order not found'')
      \<and> fst (update_order db t order_id order_data a)
          \<noteq> Inl (HTTPException 404 ''Order not found''))
   \<and> (\<forall>i. ObjectId order_id = Some i \<and> find_one (\<lambda>d. oid d = i) db = None \<longrightarrow>
          cancel_order db t order_id u = (Inl (HTTPException 404 ''Order not found''), db)
        \<and> update_order db t order_id order_data a
            = (Inl (HTTPException 404 ''Order not found''), db))"
proof (intro conjI impI allI)
  assume bad: "ObjectId order_id = None"
  then show c: "cancel_order db t order_id u = (Inl (HTTPException 400 ''Invalid order ID''), db)"
    by (rule cancel_order_invalid_id)
  from bad
  show d: "update_order db t order_id order_data a
             = (Inl (HTTPException 400 ''Invalid order ID''), db)"
    by (rule update_order_invalid_id)
  from c show "fst (cancel_order db t order_id u) \<noteq> Inl (HTTPException 404 ''Order not found'')"
    by simp
  from d show "fst (update_order db t order_id order_data a)
                 \<noteq> Inl (HTTPException 404 ''Order not found'')"
    by simp
next
  fix i
  assume "ObjectId order_id = Some i \<and> find_one (\<lambda>d. oid d = i) db = None"
  then have ok: "ObjectId order_id = Some i" and none: "find_one (\<lambda>d. oid d = i) db = None"
    by blast+
  from ok none
  show "cancel_order db t order_id u = (Inl (HTTPException 404 ''Order not found''), db)"
    by (rule cancel_order_not_found)
  from ok none
  show "update_order db t order_id order_data a
          = (Inl (HTTPException 404 ''Order not found''), db)"
    by (rule update_order_not_found)
qed

theorem malformed_order_id_rejected_witness:
  "ObjectId ''0123456789abcdef0123456g'' = None
   \<and> cancel_order (db_with CONFIRMED) 3000 ''0123456789abcdef0123456g'' bob
       = (Inl (HTTPException 400 ''Invalid order ID''), db_with CONFIRMED)
   \<and> update_order (db_with CONFIRMED) 3000 ''0123456789abcdef0123456g'' ship_patch admin_user
       = (Inl (HTTPException 400 ''Invalid order ID''), db_with CONFIRMED)
   \<and> ObjectId ''11 11 11 11 11 11 11 11 '' = Some [17, 17, 17, 17, 17, 17, 17, 17]
   \<and> find_one (\<lambda>d. oid d = [17, 17, 17, 17, 17, 17, 17, 17]) (db_with CONFIRMED) = None
   \<and> cancel_order (db_with CONFIRMED) 3000 ''11 11 11 11 11 11 11 11 '' bob
       = (Inl (HTTPException 404 ''Order not found''), db_with CONFIRMED)
   \<and> update_order (db_with CONFIRMED) 3000 ''11 11 11 11 11 11 11 11 '' ship_patch admin_user
       = (Inl (HTTPException 404 ''Order not found''), db_with CONFIRMED)"
proof -
  have h: "ObjectId ''0123456789abcdef0123456g'' = None"
    by code_simp
  have none: "find_one (\<lambda>d. oid d = [17, 17, 17, 17, 17, 17, 17, 17]) (db_with CONFIRMED) = None"
    by (simp add: find_one_def db_with_def order1_fields)
  note bad = malformed_order_id_rejected
               [of "''0123456789abcdef0123456g''" "db_with CONFIRMED" 3000 bob ship_patch admin_user]
  note spaced = malformed_order_id_rejected
               [of "''11 11 11 11 11 11 11 11 ''" "db_with CONFIRMED" 3000 bob ship_patch admin_user]
  from bad h have a:
    "cancel_order (db_with CONFIRMED) 3000 ''0123456789abcdef0123456g'' bob
       = (Inl (HTTPException 400 ''Invalid order ID''), db_with CONFIRMED)
   \<and> update_order (db_with CONFIRMED) 3000 ''0123456789abcdef0123456g'' ship_patch admin_user
       = (Inl (HTTPException 400 ''Invalid order ID''), db_with CONFIRMED)"
    by blast
  from spaced ObjectId_spaced none have b:
    "cancel_order (db_with CONFIRMED) 3000 ''11 11 11 11 11 11 11 11 '' bob
       = (Inl (HTTPException 404 ''Order not found''), db_with CONFIRMED)
   \<and> update_order (db_with CONFIRMED) 3000 ''11 11 11 11 11 11 11 11 '' ship_patch admin_user
       = (Inl (HTTPException 404 ''Order not found''), db_with CONFIRMED)"
    by blast
  from h a ObjectId_spaced none b show ?thesis by blast
qed

section \<open>Requests without items\<close>

text \<open>
  Claim C5, as stated: for every request whose items list is empty, order creation fails
  with a validation error and no order is created. It fails on the empty collection at a
  request without items: \<open>create_order\<close> returns a response and stores the order.
\<close>

theorem create_order_empty_items_counterexample:
  "c_items (request [] ''a@example.com'' COD ''standard'') = []
   \<and> fst (create_order [] env1 (request [] ''a@example.com'' COD ''standard'') None)
       = Inr (serialize_order
                (create_order_doc env1 (request [] ''a@example.com'' COD ''standard'') None))
   \<and> snd (create_order [] env1 (request [] ''a@example.com'' COD ''standard'') None)
       = [create_order_doc env1 (request [] ''a@example.com'' COD ''standard'') None]
   \<and> items (create_order_doc env1 (request [] ''a@example.com'' COD ''standard'') None) = []
   \<and> total (create_order_doc env1 (request [] ''a@example.com'' COD ''standard'') None) = 1500"
  by (simp add: create_order_empty_db [OF encodable_samples(3)])
     (simp add: create_order_doc_def Let_def request_def)

text \<open>
  Claim C5, amended: \<open>create_order\<close> does not check that the items list is non-empty. For
  every request whose items list is empty, order creation succeeds whenever the store
  accepts the generated id and order number: the order is stored with no items, subtotal
  0 and, as shipping cost and total, 3000 for \<open>express\<close> and 1500 otherwise.
\<close>

theorem create_order_empty_items:
  assumes "c_items order_data = []"
    and "\<not> list_ex (\<lambda>d. oid d = inserted_id env
                        \<or> order_number d = generate_order_number (timestamp env) (random_part env)) db"
  shows "create_order db env order_data cu
           = (Inr (serialize_order (create_order_doc env order_data cu)),
              db @ [create_order_doc env order_data cu])
       \<and> items (create_order_doc env order_data cu) = []
       \<and> subtotal (create_order_doc env order_data cu) = 0
       \<and> shipping_cost (create_order_doc env order_data cu)
           = (if c_shipping_method order_data = ''express'' then 3000 else 1500)
       \<and> total (create_order_doc env order_data cu)
           = shipping_cost (create_order_doc env order_data cu)"
proof -
  have run: "create_order db env order_data cu
               = (Inr (serialize_order (create_order_doc env order_data cu)),
                  db @ [create_order_doc env order_data cu])"
    using assms(2) encodable_no_items [OF assms(1)] by (simp add: create_order_result)
  have its: "items (create_order_doc env order_data cu) = []"
    using assms(1) by (simp add: create_order_doc_def Let_def)
  have sub: "subtotal (create_order_doc env order_data cu) = 0"
    using assms(1) by (simp add: subtotal_create_order_doc)
  have ship: "shipping_cost (create_order_doc env order_data cu)
                = (if c_shipping_method order_data = ''express'' then 3000 else 1500)"
    using assms(1) by (simp add: shipping_cost_create_order_doc)
  have tot: "total (create_order_doc env order_data cu)
               = shipping_cost (create_order_doc env order_data cu)"
    using sub by (simp add: total_create_order_doc)
  from run its sub ship tot show ?thesis by blast
qed

theorem create_order_empty_items_witness:
  "c_items (request [] ''b@example.com'' CARD ''express'') = []
   \<and> \<not> list_ex (\<lambda>d. oid d = inserted_id env1
                     \<or> order_number d = generate_order_number (timestamp env1) (random_part env1)) []
   \<and> create_order [] env1 (request [] ''b@example.com'' CARD ''express'') (Some bob)
       = (Inr (serialize_order
                 (create_order_doc env1 (request [] ''b@example.com'' CARD ''express'') (Some bob))),
          [create_order_doc env1 (request [] ''b@example.com'' CARD ''express'') (Some bob)])
   \<and> total (create_order_doc env1 (request [] ''b@example.com'' CARD ''express'') (Some bob))
       = 3000"
proof -
  have h1: "c_items (request [] ''b@example.com'' CARD ''express'') = []"
    by (simp add: request_def)
  have h2: "\<not> list_ex (\<lambda>d. oid d = inserted_id env1
               \<or> order_number d = generate_order_number (timestamp env1) (random_part env1)) []"
    by simp
  have sm: "c_shipping_method (request [] ''b@example.com'' CARD ''express'') = ''express''"
    by (simp add: request_def)
  from create_order_empty_items [OF h1 h2, of "Some bob"] h1 h2 sm show ?thesis by simp
qed

section \<open>Tracking an order by number and email\<close>

lemma track_order_Inr:
  assumes "track_order db n e = Inr r"
  shows "\<exists>d \<in> set db. order_number d = n \<and> email d = lower e \<and> r = serialize_order d"
proof (cases "find_one (\<lambda>d. order_number d = n \<and> email d = lower e) db")
  case None
  with assms show ?thesis by (simp add: track_order_def)
next
  case (Some d)
  with assms have "r = serialize_order d" by (simp add: track_order_def)
  with find_one_mem [OF Some] show ?thesis by blast
qed

lemma track_order_wrong_number:
  "\<not> list_ex (\<lambda>d. order_number d = n) db \<Longrightarrow>
     track_order db n e = Inl (HTTPException 404 ''Order not found'')"
proof -
  assume "\<not> list_ex (\<lambda>d. order_number d = n) db"
  then have "\<not> list_ex (\<lambda>d. order_number d = n \<and> email d = lower e) db"
    by (simp add: list_ex_iff)
  then have "find_one (\<lambda>d. order_number d = n \<and> email d = lower e) db = None"
    by (simp add: find_one_None_iff)
  then show ?thesis by (simp add: track_order_def)
qed

lemma lower_samples:
  "lower ''Alice@Example.com'' = ''alice@example.com''"
  "lower ''alice@example.com'' = ''alice@example.com''"
  "lower ''ALICE@EXAMPLE.COM'' = ''alice@example.com''"
  "lower ''eve@example.com'' = ''eve@example.com''"
  by code_simp+

text \<open>
  Claim C6 says that \<open>track_order\<close> succeeds exactly when the order number matches and the
  supplied email matches the stored contact email under case folding. \<open>track_order\<close> folds
  the supplied email only, and \<open>create_order\<close> stores the contact email as typed. A guest
  who orders as \<open>Alice@Example.com\<close> gets 404 for the right order number with that very
  email and with every other spelling of it, while an order whose email was typed in
  lower case is found under any spelling, and a wrong email gives 404.
\<close>

theorem track_order_mixed_case_email:
  "create_order [] env1 (request [shawl 24999 2] ''Alice@Example.com'' COD ''standard'') None
     = (Inr (serialize_order guest_order), [guest_order])
   \<and> order_number guest_order = ''AJR-261104-A1B2C3''
   \<and> email guest_order = ''Alice@Example.com''
   \<and> track_order [guest_order] ''AJR-261104-A1B2C3'' ''Alice@Example.com''
       = Inl (HTTPException 404 ''Order not found'')
   \<and> track_order [guest_order] ''AJR-261104-A1B2C3'' ''alice@example.com''
       = Inl (HTTPException 404 ''Order not found'')
   \<and> track_order [guest_order] ''AJR-261104-A1B2C3'' ''ALICE@EXAMPLE.COM''
       = Inl (HTTPException 404 ''Order not found'')
   \<and> track_order [order1] ''AJR-261104-A1B2C3'' ''Alice@Example.com''
       = Inr (serialize_order order1)
   \<and> track_order [order1] ''AJR-261104-A1B2C3'' ''eve@example.com''
       = Inl (HTTPException 404 ''Order not found'')"
proof -
  have made: "create_order [] env1
                (request [shawl 24999 2] ''Alice@Example.com'' COD ''standard'') None
              = (Inr (serialize_order guest_order), [guest_order])"
    by (simp add: create_order_empty_db [OF encodable_samples(2)] guest_order_def)
  have lost: "track_order [guest_order] ''AJR-261104-A1B2C3'' e
                = Inl (HTTPException 404 ''Order not found'')"
    if "lower e = ''alice@example.com''" for e
    using that by (simp add: track_order_def find_one_def guest_order_fields)
  have found: "track_order [order1] ''AJR-261104-A1B2C3'' ''Alice@Example.com''
                 = Inr (serialize_order order1)"
    by (simp add: track_order_def find_one_def order1_fields lower_samples)
  have wrong: "track_order [order1] ''AJR-261104-A1B2C3'' ''eve@example.com''
                 = Inl (HTTPException 404 ''Order not found'')"
    by (simp add: track_order_def find_one_def order1_fields lower_samples)
  from made guest_order_fields(2) guest_order_fields(5)
    lost [OF lower_samples(1)] lost [OF lower_samples(2)] lost [OF lower_samples(3)]
    found wrong
  show ?thesis by blast
qed

section \<open>Looking an order up\<close>

lemma owners_wf_create_order:
  assumes "owners_wf db" and "\<And>u. cu = Some u \<Longrightarrow> uid u \<noteq> []"
  shows "owners_wf (snd (create_order db env order_data cu))"
proof -
  have "user_id (create_order_doc env order_data cu) \<noteq> Some []"
    using assms(2) by (cases cu) (simp_all add: user_id_create_order_doc str_oid_nonempty)
  with assms(1) show ?thesis
    by (simp add: create_order_result owners_wf_def)
qed

lemma owners_wf_cancel_order:
  assumes "owners_wf db"
  shows "owners_wf (snd (cancel_order db t order_id u))"
proof -
  have "owners_wf (update_one flt (\<lambda>d. d\<lparr> status := CANCELLED, updated_at := t \<rparr>) db)" for flt
    using assms unfolding owners_wf_def by (rule list_all_update_one) simp
  with assms show ?thesis
    by (simp add: cancel_order_def Let_def split: option.splits)
qed

lemma user_id_update_data: "user_id (update_data order_data t d) = user_id d"
  by (simp add: update_data_def Let_def split: option.splits)

lemma owners_wf_update_order:
  assumes "owners_wf db"
  shows "owners_wf (snd (update_order db t order_id order_data a))"
proof -
  have "owners_wf (update_one flt (update_data order_data t) db)" for flt
    using assms unfolding owners_wf_def
    by (rule list_all_update_one) (simp add: user_id_update_data)
  with assms show ?thesis
    by (simp add: update_order_def Let_def split: option.splits)
qed

lemma get_order_lookup_mem: "get_order_lookup db order_id = Some order \<Longrightarrow> order \<in> set db"
  by (auto simp add: get_order_lookup_def split: option.splits dest: find_one_mem)

lemma get_order_no_caller:
  "get_order db order_id None =
     (case get_order_lookup db order_id of
        None \<Rightarrow> Inl (HTTPException 404 ''Order not found'')
      | Some order \<Rightarrow> Inr (serialize_order order))"
  by (simp add: get_order_def split: option.splits)

lemma get_order_caller:
  assumes "get_order_lookup db order_id = Some order"
  shows "get_order db order_id (Some u) =
           (if truthy (user_id order) \<and> user_id order \<noteq> Some (str_oid (uid u)) \<and> \<not> is_admin u
            then Inl (HTTPException 403 ''Not authorized to view this order'')
            else Inr (serialize_order order))"
  using assms by (simp add: get_order_def)

text \<open>
  Claim C4. For every order that \<open>get_order\<close> finds in a collection the endpoints have
  built: when a caller is present and the order has an owner, the request succeeds if and
  only if the caller is that owner or has the admin flag, and fails with 403 otherwise;
  when the order has no owner (a guest order) there is no ownership check, and every
  caller, present or not, receives the order. When no caller is present the 403 branch is
  never taken, whatever the collection and the identifier.
\<close>

theorem get_order_authorization:
  "(owners_wf db \<and> get_order_lookup db order_id = Some order \<longrightarrow>
      (\<forall>u owner. user_id order = Some owner \<longrightarrow>
          ((get_order db order_id (Some u) = Inr (serialize_order order))
             = (owner = str_oid (uid u) \<or> is_admin u))
        \<and> (owner \<noteq> str_oid (uid u) \<and> \<not> is_admin u \<longrightarrow>
             get_order db order_id (Some u)
               = Inl (HTTPException 403 ''Not authorized to view this order'')))
    \<and> (user_id order = None \<longrightarrow>
         (\<forall>cu. get_order db order_id cu = Inr (serialize_order order))))
   \<and> (\<forall>detail. get_order db order_id None \<noteq> Inl (HTTPException 403 detail))"
proof (intro conjI impI allI)
  fix u owner
  assume pre: "owners_wf db \<and> get_order_lookup db order_id = Some order"
    and own: "user_id order = Some owner"
  from pre have "order \<in> set db" using get_order_lookup_mem by blast
  with pre have "user_id order \<noteq> Some []" by (simp add: owners_wf_def list_all_iff)
  with own have tr: "truthy (user_id order)" by (simp add: truthy_def)
  from pre have run: "get_order db order_id (Some u) =
           (if truthy (user_id order) \<and> user_id order \<noteq> Some (str_oid (uid u)) \<and> \<not> is_admin u
            then Inl (HTTPException 403 ''Not authorized to view this order'')
            else Inr (serialize_order order))"
    by (simp add: get_order_caller)
  from run tr own
  show "(get_order db order_id (Some u) = Inr (serialize_order order))
          = (owner = str_oid (uid u) \<or> is_admin u)"
    by auto
  assume "owner \<noteq> str_oid (uid u) \<and> \<not> is_admin u"
  with run tr own
  show "get_order db order_id (Some u)
          = Inl (HTTPException 403 ''Not authorized to view this order'')"
    by auto
next
  fix cu
  assume pre: "owners_wf db \<and> get_order_lookup db order_id = Some order"
    and guest: "user_id order = None"
  show "get_order db order_id cu = Inr (serialize_order order)"
  proof (cases cu)
    case None
    with pre show ?thesis by (simp add: get_order_no_caller)
  next
    case (Some u)
    with pre guest show ?thesis by (simp add: get_order_caller truthy_def)
  qed
next
  fix detail
  show "get_order db order_id None \<noteq> Inl (HTTPException 403 detail)"
    by (simp add: get_order_no_caller split: option.splits)
qed

theorem get_order_authorization_witness:
  "owners_wf (db_with PENDING)
   \<and> get_order_lookup (db_with PENDING) id1 = Some (order1\<lparr> status := PENDING \<rparr>)
   \<and> user_id (order1\<lparr> status := PENDING \<rparr>) = Some (str_oid (uid alice))
   \<and> get_order (db_with PENDING) id1 (Some alice)
       = Inr (serialize_order (order1\<lparr> status := PENDING \<rparr>))
   \<and> get_order (db_with PENDING) id1 (Some admin_user)
       = Inr (serialize_order (order1\<lparr> status := PENDING \<rparr>))
   \<and> get_order (db_with PENDING) id1 (Some bob)
       = Inl (HTTPException 403 ''Not authorized to view this order'')
   \<and> owners_wf [guest_order]
   \<and> get_order_lookup [guest_order] ''AJR-261104-A1B2C3'' = Some guest_order
   \<and> user_id guest_order = None
   \<and> get_order [guest_order] ''AJR-261104-A1B2C3'' (Some bob) = Inr (serialize_order guest_order)
   \<and> get_order [guest_order] ''AJR-261104-A1B2C3'' None = Inr (serialize_order guest_order)"
proof -
  have wf1: "owners_wf (db_with PENDING)"
    by (simp add: owners_wf_def db_with_def order1_fields)
  have look1: "get_order_lookup (db_with PENDING) id1 = Some (order1\<lparr> status := PENDING \<rparr>)"
    by (simp add: get_order_lookup_def ObjectId_id1 find_one_db_with)
  have own1: "user_id (order1\<lparr> status := PENDING \<rparr>) = Some (str_oid (uid alice))"
    by (simp add: order1_fields str_oid_alice)
  have others: "str_oid (uid alice) \<noteq> str_oid (uid admin_user)"
    "str_oid (uid alice) \<noteq> str_oid (uid bob)"
    by (simp_all add: str_oid_alice str_oid_admin_user str_oid_bob)
  have wf2: "owners_wf [guest_order]"
    by (simp add: owners_wf_def guest_order_fields)
  have no_oid: "ObjectId ''AJR-261104-A1B2C3'' = None"
    by (simp add: ObjectId_def)
  have look2: "get_order_lookup [guest_order] ''AJR-261104-A1B2C3'' = Some guest_order"
    by (simp add: get_order_lookup_def no_oid find_one_def guest_order_fields)
  note owned = get_order_authorization [of "db_with PENDING" id1 "order1\<lparr> status := PENDING \<rparr>"]
  note guest = get_order_authorization [of "[guest_order]" "''AJR-261104-A1B2C3''" guest_order]
  have a: "get_order (db_with PENDING) id1 (Some alice)
             = Inr (serialize_order (order1\<lparr> status := PENDING \<rparr>))"
    using owned wf1 look1 own1 by blast
  have b: "get_order (db_with PENDING) id1 (Some admin_user)
             = Inr (serialize_order (order1\<lparr> status := PENDING \<rparr>))"
    using owned wf1 look1 own1 users_flags(3) by blast
  have c: "get_order (db_with PENDING) id1 (Some bob)
             = Inl (HTTPException 403 ''Not authorized to view this order'')"
    using owned wf1 look1 own1 users_flags(2) others(2) by blast
  have d: "get_order [guest_order] ''AJR-261104-A1B2C3'' cu = Inr (serialize_order guest_order)"
    for cu
    using guest wf2 look2 guest_order_fields(3) by blast
  from wf1 look1 own1 a b c wf2 look2 guest_order_fields(3) d [of "Some bob"] d [of None]
  show ?thesis by blast
qed

section \<open>Tokens\<close>

lemma expiry_create_access_token:
  "create_access_token mac settings utcnow data expires_delta =
     jwt_encode mac
       (data\<lparr> exp := Some (utcnow + (if expires_delta = None \<or> expires_delta = Some 0
                                      then 60 * ACCESS_TOKEN_EXPIRE_MINUTES settings
                                      else the expires_delta)) \<rparr>)
       (SECRET_KEY settings) (ALGORITHM settings)"
  by (cases expires_delta) (simp_all add: create_access_token_def Let_def timedelta_minutes_def)

lemma jwt_decode_encode:
  "jwt_decode mac t (jwt_encode mac c key alg) key [alg] =
     (case exp c of Some e \<Rightarrow> if e < t then Inl JWTError else Inr c | None \<Rightarrow> Inr c)"
  by (simp add: jwt_decode_def jwt_encode_def)



lemma get_current_user_sub_issued:
  assumes "sub data = Some subject" and "ttl \<noteq> 0"
  shows "get_current_user_sub mac settings t
           (create_access_token mac settings utcnow data (Some ttl))
         = (if utcnow + ttl < t then Inl credentials_exception else Inr subject)"
  using assms
  by (simp add: get_current_user_sub_def expiry_create_access_token jwt_decode_encode)

lemma get_current_user_no_token:
  "get_current_user mac settings users t None = Inr None"
  "get_current_user mac settings users t (Some (Unparsable [])) = Inr None"
  by (simp_all add: get_current_user_def)

lemma get_current_user_resolved:
  assumes "tok \<noteq> Unparsable []"
  shows "get_current_user mac settings users t (Some tok) =
           (case get_current_user_sub mac settings t tok of
              Inl e \<Rightarrow> Inl e
            | Inr user_id' \<Rightarrow>
                (case ObjectId user_id' of
                   None \<Rightarrow> Inl InvalidId
                 | Some i \<Rightarrow>
                     (case find_one (\<lambda>u. uid u = i) users of
                        None \<Rightarrow> Inl credentials_exception
                      | Some u \<Rightarrow> Inr (Some u))))"
  using assms by (simp add: get_current_user_def)

lemma create_access_token_parsable:
  "create_access_token mac settings utcnow data expires_delta \<noteq> Unparsable s"
  by (simp add: expiry_create_access_token jwt_encode_def)




text \<open>
  A token that verifies and whose subject is not the text of an object id makes
  \<open>get_current_user\<close> raise \<open>InvalidId\<close>, which no handler catches, and one whose subject
  is the id of no account gives the credentials exception.
\<close>

lemma get_current_user_unknown_subject:
  assumes "0 < ttl" and "sub data = Some subject" and "t \<le> utcnow + ttl"
  shows "get_current_user mac settings users t
           (Some (create_access_token mac settings utcnow data (Some ttl)))
         = (case ObjectId subject of
              None \<Rightarrow> Inl InvalidId
            | Some i \<Rightarrow>
                (case find_one (\<lambda>u. uid u = i) users of
                   None \<Rightarrow> Inl credentials_exception
                 | Some u \<Rightarrow> Inr (Some u)))"
proof -
  from assms(1) have "ttl \<noteq> 0" by simp
  with assms(2) have "get_current_user_sub mac settings t
                        (create_access_token mac settings utcnow data (Some ttl))
                      = (if utcnow + ttl < t then Inl credentials_exception else Inr subject)"
    by (rule get_current_user_sub_issued)
  with assms(3) show ?thesis
    by (simp add: get_current_user_resolved [OF create_access_token_parsable])
qed

end
